theory Spec2Isabelle
  imports Complex_Main
begin

section \<open>Python strings\<close>

text \<open>
  A Python \<open>str\<close> is modelled as a \<open>string\<close>, each \<open>char\<close> standing for one code
  point below 256. The functions below are the \<open>str\<close> methods that \<open>main.py\<close> calls.
\<close>

definition lower_char :: "char \<Rightarrow> char" where
  \<comment> \<open>the upper-case code points below 256 lie 32 below their lower-case ones: bit 5 is set\<close>
  "lower_char c =
     (let n = (of_char c :: nat)
      in if (65 \<le> n \<and> n \<le> 90) \<or> (192 \<le> n \<and> n \<le> 222 \<and> n \<noteq> 215)
         then (case c of Char b0 b1 b2 b3 b4 b5 b6 b7 \<Rightarrow> Char b0 b1 b2 b3 b4 True b6 b7)
         else c)"

definition lower :: "string \<Rightarrow> string" where
  \<comment> \<open>\<open>s.lower()\<close>\<close>
  "lower s = map lower_char s"

definition startswith :: "string \<Rightarrow> string \<Rightarrow> bool" where
  \<comment> \<open>\<open>s.startswith(p)\<close>, the prefix first\<close>
  "startswith p s = (take (length p) s = p)"

fun split_on :: "char \<Rightarrow> string \<Rightarrow> string list" where
  \<comment> \<open>\<open>s.split(c)\<close> for a separator of one character; the result is never empty\<close>
  "split_on c [] = [[]]"
| "split_on c (x # xs) =
     (if x = c then [] # split_on c xs
      else (case split_on c xs of
              [] \<Rightarrow> [[x]]
            | w # ws \<Rightarrow> (x # w) # ws))"

definition lstrip_char :: "char \<Rightarrow> string \<Rightarrow> string" where
  \<comment> \<open>\<open>s.lstrip(c)\<close> for a set of one character\<close>
  "lstrip_char c s = dropWhile (\<lambda>x. x = c) s"

definition isspace :: "char \<Rightarrow> bool" where
  \<comment> \<open>the code points below 256 that \<open>str.strip()\<close> removes\<close>
  "isspace c =
     (let n = (of_char c :: nat)
      in (9 \<le> n \<and> n \<le> 13) \<or> (28 \<le> n \<and> n \<le> 32) \<or> n = 133 \<or> n = 160)"

definition strip :: "string \<Rightarrow> string" where
  \<comment> \<open>\<open>s.strip()\<close>\<close>
  "strip s = rev (dropWhile isspace (rev (dropWhile isspace s)))"

fun is_substring :: "string \<Rightarrow> string \<Rightarrow> bool" where
  \<comment> \<open>\<open>p in s\<close> for two strings\<close>
  "is_substring p [] = (p = [])"
| "is_substring p (c # cs) = (startswith p (c # cs) \<or> is_substring p cs)"

section \<open>Values, exceptions and responses\<close>

text \<open>
  The values that JSON decoding yields: \<open>None\<close>, \<open>bool\<close>, \<open>int\<close>, \<open>float\<close>,
  \<open>str\<close>, \<open>list\<close> and \<open>dict\<close>. A float is kept as its \<open>repr\<close>; a \<open>dict\<close> is the
  list of its items in insertion order, looked up with \<open>map_of\<close>.
\<close>

datatype json =
    JNull
  | JBool bool
  | JInt int
  | JFloat string
  | JStr string
  | JList "json list"
  | JObj "(string \<times> json) list"

text \<open>
  The exceptions other than \<open>HTTPException\<close> and \<open>SupadataError\<close>. The ones the model
  raises itself are named; an exception raised by a library comes with its text.
\<close>

datatype py_exc =
    AttributeError
  | TypeError
  | IndexError
  | KeyError
  | JSONDecodeError
  | TimeoutError
  | OtherException string

text \<open>The seven messages of the table in \<open>verify_link\<close>, lines 274 to 282.\<close>

datatype supadata_message =
    InvalidRequest
  | Unauthorized
  | UpgradeRequired
  | NotFound
  | LimitExceeded
  | TranscriptUnavailable
  | InternalError

text \<open>
  The \<open>detail\<close> of an \<open>HTTPException\<close>. The source's texts are Polish sentences, some
  with a value formatted in; each constructor stands for one text and carries that value.
\<close>

datatype detail =
    UnsupportedFileType "string option"  \<comment> \<open>line 63, with the content type\<close>
  | MissingConfig string                 \<comment> \<open>lines 67, 127, 235, 238, with the variable\<close>
  | SaveFailed py_exc                    \<comment> \<open>line 75\<close>
  | NoRequestId                          \<comment> \<open>line 83\<close>
  | DetectionTimeout                     \<comment> \<open>line 105\<close>
  | DetectionFailed py_exc               \<comment> \<open>line 109\<close>
  | ProviderError string                 \<comment> \<open>lines 193, 339: \<open>xAI error:\<close> and the body\<close>
  | EmptyAnswer                          \<comment> \<open>lines 198, 344\<close>
  | InvalidJson                          \<comment> \<open>line 204\<close>
  | MissingField string                  \<comment> \<open>lines 209, 350, with the field\<close>
  | BadDecision                          \<comment> \<open>lines 211, 352\<close>
  | BadSources                           \<comment> \<open>lines 213, 354: must be a list (max 10)\<close>
  | AnalysisFailed py_exc                \<comment> \<open>lines 220, 361\<close>
  | NoContent                            \<comment> \<open>line 270\<close>
  | Mapped supadata_message              \<comment> \<open>line 283, a message of the table\<close>
  | SupadataOther string                 \<comment> \<open>line 283: \<open>Supadata error:\<close> and \<open>str(e)\<close>\<close>
  | SupadataFailed py_exc                \<comment> \<open>line 288\<close>

datatype http_exception = HTTPException (status_of: int) (detail_of: detail)

text \<open>What a \<open>try\<close> block can raise: an \<open>HTTPException\<close> or any other exception.\<close>

datatype raised = RaisedHTTP http_exception | RaisedPy py_exc

definition and_then :: "'e + 'a \<Rightarrow> ('a \<Rightarrow> 'e + 'b) \<Rightarrow> 'e + 'b" where
  \<comment> \<open>sequencing: an exception leaves the block\<close>
  "and_then m f = (case m of Inl e \<Rightarrow> Inl e | Inr x \<Rightarrow> f x)"

definition from_library :: "py_exc + 'a \<Rightarrow> raised + 'a" where
  "from_library r = (case r of Inl e \<Rightarrow> Inl (RaisedPy e) | Inr x \<Rightarrow> Inr x)"

fun truthy :: "json \<Rightarrow> bool" where
  \<comment> \<open>Python's truth value\<close>
  "truthy JNull = False"
| "truthy (JBool b) = b"
| "truthy (JInt i) = (i \<noteq> 0)"
| "truthy (JFloat r) = (r \<noteq> ''0.0'' \<and> r \<noteq> ''-0.0'')"
| "truthy (JStr s) = (s \<noteq> [])"
| "truthy (JList xs) = (xs \<noteq> [])"
| "truthy (JObj kvs) = (kvs \<noteq> [])"

fun get :: "json \<Rightarrow> string \<Rightarrow> json \<Rightarrow> raised + json" where
  \<comment> \<open>\<open>v.get(k, d)\<close>: only a \<open>dict\<close> has the method\<close>
  "get (JObj kvs) k d = Inr (case map_of kvs k of None \<Rightarrow> d | Some x \<Rightarrow> x)"
| "get v k d = Inl (RaisedPy AttributeError)"

fun item0 :: "json \<Rightarrow> raised + json" where
  \<comment> \<open>\<open>v[0]\<close>; the keys of a decoded \<open>dict\<close> are strings, so \<open>0\<close> is not among them\<close>
  "item0 (JList []) = Inl (RaisedPy IndexError)"
| "item0 (JList (x # xs)) = Inr x"
| "item0 (JStr []) = Inl (RaisedPy IndexError)"
| "item0 (JStr (c # cs)) = Inr (JStr [c])"
| "item0 (JObj kvs) = Inl (RaisedPy KeyError)"
| "item0 v = Inl (RaisedPy TypeError)"

fun contains :: "json \<Rightarrow> string \<Rightarrow> raised + bool" where
  \<comment> \<open>\<open>k in v\<close> for a string \<open>k\<close>\<close>
  "contains (JObj kvs) k = Inr (k \<in> fst ` set kvs)"
| "contains (JStr s) k = Inr (is_substring k s)"
| "contains (JList xs) k = Inr (JStr k \<in> set xs)"
| "contains v k = Inl (RaisedPy TypeError)"

fun iterate :: "json \<Rightarrow> raised + json list" where
  \<comment> \<open>the elements a \<open>for\<close> loop over the value visits\<close>
  "iterate (JList xs) = Inr xs"
| "iterate (JStr s) = Inr (map (\<lambda>c. JStr [c]) s)"
| "iterate (JObj kvs) = Inr (map (\<lambda>kv. JStr (fst kv)) kvs)"
| "iterate v = Inl (RaisedPy TypeError)"

section \<open>The standard library and the providers\<close>

text \<open>
  The functions of Python's standard library and of the providers' client libraries are
  not part of the repository. A call to one of them is a parameter of the model: the
  record \<open>world\<close> holds, for each of them, the function from its arguments to its
  outcome, an exception included.
\<close>

record parse_result =
  netloc :: string
  path :: string
  query :: string

text \<open>
  A \<open>SupadataError\<close>, by what lines 272 and 283 read of it. The client library declares
  the exception with the fields \<open>error\<close>, \<open>message\<close>, \<open>details\<close> and
  \<open>documentation_url\<close>: an exception it raises has neither of the two attributes, and
  both lookups give \<open>None\<close>.
\<close>

record supadata_error =
  err_status :: "int option"       \<comment> \<open>\<open>getattr(e, "status", None)\<close>\<close>
  err_status_code :: "int option"  \<comment> \<open>\<open>getattr(e, "status_code", None)\<close>\<close>
  err_str :: string                \<comment> \<open>\<open>str(e)\<close>\<close>

datatype supadata_call = Transcript string | Scrape string

datatype supadata_outcome =
    Content "string option"        \<comment> \<open>the response's \<open>content\<close>, which may be \<open>None\<close>\<close>
  | RaisedSupadata supadata_error
  | RaisedOther py_exc

record response =
  resp_status_code :: int
  resp_text :: string
  resp_json :: "py_exc + json"     \<comment> \<open>\<open>resp.json()\<close>\<close>

datatype chat_outcome = Responded response | ChatRaised py_exc

record world =
  getenv :: "string \<Rightarrow> string option"
  urlparse :: "string \<Rightarrow> parse_result option"       \<comment> \<open>\<open>None\<close>: it raised\<close>
  parse_qs :: "string \<Rightarrow> string \<rightharpoonup> string list"
  supadata :: "supadata_call \<Rightarrow> supadata_outcome"
  post_chat :: "string \<Rightarrow> string \<Rightarrow> chat_outcome"    \<comment> \<open>the key, then the user's text\<close>
  json_loads :: "string \<Rightarrow> py_exc + json"

definition missing :: "string option \<Rightarrow> bool" where
  \<comment> \<open>\<open>not os.getenv(...)\<close>: unset or empty\<close>
  "missing v = (case v of None \<Rightarrow> True | Some s \<Rightarrow> s = [])"

section \<open>The link endpoint: the video identifier and the extraction\<close>

definition youtube_hosts :: "string set" where
  "youtube_hosts = {''www.youtube.com'', ''youtube.com'', ''m.youtube.com''}"

text \<open>
  \<open>_extract_youtube_video_id\<close>, lines 241 to 256. Whatever is raised inside is caught and
  gives \<open>None\<close>: \<open>urlparse\<close> raising, and \<open>[0]\<close> on an empty list. \<open>short_link\<close> is
  lines 252 to 254, which the code reaches from a host of line 245 too when neither path
  test holds. The result can be the empty string (line 251).
\<close>

definition extract_youtube_video_id :: "world \<Rightarrow> string \<Rightarrow> string option" where
  "extract_youtube_video_id w u =
     (case urlparse w u of
        None \<Rightarrow> None
      | Some parsed \<Rightarrow>
          (let host = lower (netloc parsed);
               short_link =
                 (if host = ''youtu.be'' then
                    (case split_on CHR ''/'' (lstrip_char CHR ''/'' (path parsed)) of
                       [] \<Rightarrow> None
                     | first # rest \<Rightarrow> if first = [] then None else Some first)
                  else None)
           in if host \<in> youtube_hosts then
                if startswith ''/watch'' (path parsed) then
                  (case parse_qs w (query parsed) ''v'' of
                     None \<Rightarrow> None
                   | Some [] \<Rightarrow> None
                   | Some (v # vs) \<Rightarrow> if v = [] then None else Some v)
                else if startswith ''/shorts/'' (path parsed) then
                  (let parts = split_on CHR ''/'' (path parsed)
                   in if length parts > 2 then Some (parts ! 2) else None)
                else short_link
              else short_link))"

text \<open>
  Lines 261 to 267: the request sent to the extraction provider. An identifier that is
  \<open>None\<close> or empty is false in \<open>if video_id\<close>.
\<close>

definition link_call :: "world \<Rightarrow> string \<Rightarrow> supadata_call" where
  "link_call w url =
     (case extract_youtube_video_id w url of
        None \<Rightarrow> Scrape url
      | Some video_id \<Rightarrow> if video_id \<noteq> [] then Transcript video_id else Scrape url)"

definition messages :: "int \<rightharpoonup> supadata_message" where
  "messages =
     [400 \<mapsto> InvalidRequest, 401 \<mapsto> Unauthorized, 402 \<mapsto> UpgradeRequired, 404 \<mapsto> NotFound,
      429 \<mapsto> LimitExceeded, 206 \<mapsto> TranscriptUnavailable, 500 \<mapsto> InternalError]"

definition error_code :: "supadata_error \<Rightarrow> int option" where
  \<comment> \<open>line 272: the first of the two attributes that is neither \<open>None\<close> nor zero, else the second\<close>
  "error_code e =
     (case err_status e of
        None \<Rightarrow> err_status_code e
      | Some c \<Rightarrow> if c \<noteq> 0 then Some c else err_status_code e)"

definition supadata_failure :: "supadata_error \<Rightarrow> http_exception" where
  \<comment> \<open>lines 272 to 284\<close>
  "supadata_failure e =
     (let code = error_code e;
          msg = (case code of
                   None \<Rightarrow> SupadataOther (err_str e)
                 | Some c \<Rightarrow> (case messages c of
                               None \<Rightarrow> SupadataOther (err_str e)
                             | Some m \<Rightarrow> Mapped m))
      in HTTPException (case code of None \<Rightarrow> 502 | Some c \<Rightarrow> if c \<noteq> 0 then c else 502) msg)"

text \<open>Lines 259 to 288: the text to analyse, or the exception that ends the request.\<close>

definition link_content :: "world \<Rightarrow> string \<Rightarrow> http_exception + string" where
  "link_content w url =
     (case supadata w (link_call w url) of
        Content c \<Rightarrow>
          (let content = (case c of None \<Rightarrow> [] | Some s \<Rightarrow> s)
           in if strip content = [] then Inl (HTTPException 422 NoContent) else Inr content)
      | RaisedSupadata e \<Rightarrow> Inl (supadata_failure e)
      | RaisedOther e \<Rightarrow> Inl (HTTPException 502 (SupadataFailed e)))"

section \<open>The analysis by the inference provider\<close>

text \<open>Lines 196 and 342: the content of the first choice's message.\<close>

definition message_content :: "json \<Rightarrow> raised + json" where
  "message_content data =
     and_then (get data ''choices'' (JList [JObj []])) (\<lambda>choices.
     and_then (item0 choices) (\<lambda>choice.
     and_then (get choice ''message'' (JObj [])) (\<lambda>message.
     get message ''content'' (JStr []))))"

definition required :: "string list" where
  "required = [''decision'', ''summary'', ''ai_explanatation'', ''sources'']"

text \<open>The loop of lines 207 to 209 and 348 to 350.\<close>

fun require_fields :: "string list \<Rightarrow> json \<Rightarrow> raised + unit" where
  "require_fields [] parsed = Inr ()"
| "require_fields (key # keys) parsed =
     and_then (contains parsed key) (\<lambda>present.
       if \<not> present then Inl (RaisedHTTP (HTTPException 502 (MissingField key)))
       else require_fields keys parsed)"

text \<open>
  The checks of lines 207 to 215, which lines 348 to 356 repeat word for word: the four
  fields, then \<open>decision\<close>, then \<open>sources\<close>; the value returned is \<open>parsed\<close> itself.
\<close>

definition check_schema :: "json \<Rightarrow> raised + json" where
  "check_schema parsed =
     and_then (require_fields required parsed) (\<lambda>_.
     and_then (get parsed ''decision'' JNull) (\<lambda>decision.
       if decision \<noteq> JStr ''tak'' \<and> decision \<noteq> JStr ''nie''
       then Inl (RaisedHTTP (HTTPException 502 BadDecision))
       else
     and_then (get parsed ''sources'' JNull) (\<lambda>sources.
       (case sources of
          JList xs \<Rightarrow>
            if length xs > 10 then Inl (RaisedHTTP (HTTPException 502 BadSources))
            else Inr parsed
        | _ \<Rightarrow> Inl (RaisedHTTP (HTTPException 502 BadSources))))))"

definition loads :: "world \<Rightarrow> json \<Rightarrow> py_exc + json" where
  \<comment> \<open>\<open>json.loads(content)\<close>: the content is a value of the decoded response\<close>
  "loads w content = (case content of JStr s \<Rightarrow> json_loads w s | _ \<Rightarrow> Inl TypeError)"

text \<open>
  Lines 192 to 198 and 338 to 344: the provider's response up to the message content.
\<close>

definition answer :: "chat_outcome \<Rightarrow> raised + json" where
  "answer outcome =
     (case outcome of
        ChatRaised e \<Rightarrow> Inl (RaisedPy e)
      | Responded resp \<Rightarrow>
          if resp_status_code resp \<ge> 400
          then Inl (RaisedHTTP (HTTPException (resp_status_code resp) (ProviderError (resp_text resp))))
          else
            and_then (from_library (resp_json resp)) (\<lambda>data.
            and_then (message_content data) (\<lambda>content.
              if \<not> truthy content then Inl (RaisedHTTP (HTTPException 502 EmptyAnswer))
              else Inr content)))"

definition handlers :: "raised + 'a \<Rightarrow> http_exception + 'a" where
  \<comment> \<open>lines 217 to 220 and 358 to 361\<close>
  "handlers r =
     (case r of
        Inl (RaisedHTTP h) \<Rightarrow> Inl h
      | Inl (RaisedPy e) \<Rightarrow> Inl (HTTPException 502 (AnalysisFailed e))
      | Inr v \<Rightarrow> Inr v)"

text \<open>Lines 200 to 215: only the text endpoint has a handler for \<open>JSONDecodeError\<close>.\<close>

definition validate_text :: "world \<Rightarrow> json \<Rightarrow> raised + json" where
  "validate_text w content =
     (case loads w content of
        Inl JSONDecodeError \<Rightarrow> Inl (RaisedHTTP (HTTPException 502 InvalidJson))
      | Inl e \<Rightarrow> Inl (RaisedPy e)
      | Inr parsed \<Rightarrow> check_schema parsed)"

text \<open>Lines 346 to 356.\<close>

definition validate_link :: "world \<Rightarrow> json \<Rightarrow> raised + json" where
  "validate_link w content = and_then (from_library (loads w content)) check_schema"

definition verify_text_disinfo :: "world \<Rightarrow> string \<Rightarrow> http_exception + json" where
  "verify_text_disinfo w text =
     (case getenv w ''XAI_API_KEY'' of
        None \<Rightarrow> Inl (HTTPException 500 (MissingConfig ''XAI_API_KEY''))
      | Some api_key \<Rightarrow>
          if api_key = [] then Inl (HTTPException 500 (MissingConfig ''XAI_API_KEY''))
          else handlers (and_then (answer (post_chat w api_key text)) (validate_text w)))"

definition verify_link :: "world \<Rightarrow> string \<Rightarrow> http_exception + json" where
  "verify_link w url =
     (if missing (getenv w ''SUPADATA_API_KEY'')
      then Inl (HTTPException 500 (MissingConfig ''SUPADATA_API_KEY''))
      else
        (case getenv w ''XAI_API_KEY'' of
           None \<Rightarrow> Inl (HTTPException 500 (MissingConfig ''XAI_API_KEY''))
         | Some xai_key \<Rightarrow>
             if xai_key = [] then Inl (HTTPException 500 (MissingConfig ''XAI_API_KEY''))
             else
               (case link_content w url of
                  Inl h \<Rightarrow> Inl h
                | Inr content \<Rightarrow>
                    handlers (and_then (answer (post_chat w xai_key content)) (validate_link w)))))"

section \<open>The image endpoint\<close>

text \<open>
  The file system is the set of the paths that exist. \<open>NamedTemporaryFile\<close> with
  \<open>delete=False\<close> leaves its file behind, also when the write that follows raises. The
  detection provider's client reads the file and changes no path. \<open>os.remove\<close> on a
  path that exists either removes it or raises and leaves it; which of the two is the
  detector's \<open>remove_raises\<close>. Time is counted in seconds.
\<close>

type_synonym files = "string set"

record upload_file =
  content_type :: "string option"
  filename :: "string option"

datatype save_outcome =
    NotCreated py_exc         \<comment> \<open>\<open>NamedTemporaryFile\<close> raised\<close>
  | Unwritten string py_exc   \<comment> \<open>the file was created, then reading or writing raised\<close>
  | Saved string              \<comment> \<open>\<open>tmp_path\<close>\<close>

record detector =
  rd_getenv :: "string \<Rightarrow> string option"
  tmp_file :: save_outcome                         \<comment> \<open>lines 70 to 73\<close>
  upload :: "string \<Rightarrow> string \<Rightarrow> py_exc + json"    \<comment> \<open>lines 78 and 80: the key, then the path\<close>
  get_result :: "json \<Rightarrow> real \<times> (py_exc + json)"
    \<comment> \<open>\<open>rd.get_result(request_id)\<close>: the seconds the polling takes, and how it ends\<close>
  remove_raises :: "string \<Rightarrow> py_exc option"
    \<comment> \<open>the exception of \<open>os.remove\<close> on the path, if it raises\<close>

definition wait_for :: "real \<Rightarrow> real \<times> (py_exc + 'a) \<Rightarrow> py_exc + 'a" where
  \<comment> \<open>\<open>asyncio.wait_for(aw, timeout)\<close>: \<open>TimeoutError\<close> when the wait passes the ceiling\<close>
  "wait_for timeout run = (if timeout < fst run then Inl TimeoutError else snd run)"

definition os_remove :: "detector \<Rightarrow> string \<Rightarrow> files \<Rightarrow> py_exc + files" where
  "os_remove d p fs =
     (if p \<notin> fs then Inl (OtherException ''FileNotFoundError'')
      else (case remove_raises d p of
              Some e \<Rightarrow> Inl e
            | None \<Rightarrow> Inr (fs - {p})))"

definition cleanup :: "detector \<Rightarrow> string \<Rightarrow> files \<Rightarrow> files" where
  \<comment> \<open>lines 110 to 115: an exception of \<open>os.remove\<close> is dropped, and the file stays\<close>
  "cleanup d tmp_path fs =
     (if tmp_path \<in> fs
      then (case os_remove d tmp_path fs of Inl e \<Rightarrow> fs | Inr fs' \<Rightarrow> fs')
      else fs)"

text \<open>Lines 93 to 98, for the models in turn.\<close>

fun model_entries :: "json list \<Rightarrow> raised + json list" where
  "model_entries [] = Inr []"
| "model_entries (m # ms) =
     and_then (get m ''name'' JNull) (\<lambda>name.
     and_then (get m ''status'' JNull) (\<lambda>status.
     and_then (get m ''score'' JNull) (\<lambda>score.
     and_then (get m ''metadata'' JNull) (\<lambda>metadata.
     and_then (model_entries ms) (\<lambda>entries.
       Inr (JObj [(''name'', name), (''status'', status), (''score'', score),
                  (''metadata'', metadata)] # entries))))))"

text \<open>Lines 78 to 102.\<close>

definition detection :: "detector \<Rightarrow> string \<Rightarrow> string \<Rightarrow> raised + json" where
  "detection d api_key tmp_path =
     and_then (from_library (upload d api_key tmp_path)) (\<lambda>upload_resp.
     and_then (get upload_resp ''request_id'' JNull) (\<lambda>request_id.
       if \<not> truthy request_id then Inl (RaisedHTTP (HTTPException 502 NoRequestId))
       else
     and_then (from_library (wait_for 90 (get_result d request_id))) (\<lambda>result.
     and_then (get result ''status'' JNull) (\<lambda>status.
     and_then (get result ''score'' JNull) (\<lambda>score.
     and_then (get result ''models'' (JList [])) (\<lambda>models.
     and_then (iterate models) (\<lambda>ms.
     and_then (model_entries ms) (\<lambda>entries.
       Inr (JObj [(''request_id'', request_id), (''status'', status), (''score'', score),
                  (''models'', JList entries)])))))))))"

definition image_handlers :: "raised + json \<Rightarrow> http_exception + json" where
  \<comment> \<open>lines 104 to 109\<close>
  "image_handlers r =
     (case r of
        Inl (RaisedPy TimeoutError) \<Rightarrow> Inl (HTTPException 504 DetectionTimeout)
      | Inl (RaisedHTTP h) \<Rightarrow> Inl h
      | Inl (RaisedPy e) \<Rightarrow> Inl (HTTPException 502 (DetectionFailed e))
      | Inr v \<Rightarrow> Inr v)"

definition image_type :: "string option \<Rightarrow> bool" where
  \<comment> \<open>line 61, negated\<close>
  "image_type ct = (case ct of None \<Rightarrow> False | Some t \<Rightarrow> t \<noteq> [] \<and> startswith ''image/'' t)"

definition verify_image_with_reality_defender ::
  "detector \<Rightarrow> upload_file \<Rightarrow> files \<Rightarrow> files \<times> (http_exception + json)" where
  "verify_image_with_reality_defender d file fs =
     (if \<not> image_type (content_type file)
      then (fs, Inl (HTTPException 415 (UnsupportedFileType (content_type file))))
      else
        (case rd_getenv d ''REALITY_DEFENDER_API_KEY'' of
           None \<Rightarrow> (fs, Inl (HTTPException 500 (MissingConfig ''REALITY_DEFENDER_API_KEY'')))
         | Some api_key \<Rightarrow>
             if api_key = []
             then (fs, Inl (HTTPException 500 (MissingConfig ''REALITY_DEFENDER_API_KEY'')))
             else
               (case tmp_file d of
                  NotCreated e \<Rightarrow> (fs, Inl (HTTPException 500 (SaveFailed e)))
                | Unwritten p e \<Rightarrow> (insert p fs, Inl (HTTPException 500 (SaveFailed e)))
                | Saved tmp_path \<Rightarrow>
                    (cleanup d tmp_path (insert tmp_path fs),
                     image_handlers (detection d api_key tmp_path)))))"

text \<open>
  What the handlers of lines 217 to 220 and 358 to 361 let out with status 502: any
  exception that is not an \<open>HTTPException\<close>, and an \<open>HTTPException\<close> of status 502.
\<close>

definition surfaces_502 :: "raised \<Rightarrow> bool" where
  "surfaces_502 r = (case r of RaisedPy e \<Rightarrow> True | RaisedHTTP h \<Rightarrow> status_of h = 502)"

section \<open>The verdict schema and the order of its checks, as the specification words them\<close>

text \<open>
  The schema of the verdict: an object with the four required fields, a \<open>decision\<close> that
  is one of the two accepted tokens, and \<open>sources\<close> a sequence of at most ten entries.
\<close>

definition satisfies_schema :: "json \<Rightarrow> bool" where
  "satisfies_schema v =
     (case v of
        JObj kvs \<Rightarrow>
          (\<forall>k \<in> set required. map_of kvs k \<noteq> None) \<and>
          (map_of kvs ''decision'' = Some (JStr ''tak'') \<or>
           map_of kvs ''decision'' = Some (JStr ''nie'')) \<and>
          (case map_of kvs ''sources'' of
             Some (JList xs) \<Rightarrow> length xs \<le> 10
           | _ \<Rightarrow> False)
      | _ \<Rightarrow> False)"

text \<open>
  The validator's steps on a decoded object, the first failure winning: the first
  required field that is absent, then the decision, then the sources.
\<close>

definition checks_in_order :: "(string \<times> json) list \<Rightarrow> raised + json" where
  "checks_in_order kvs =
     (case filter (\<lambda>k. map_of kvs k = None) required of
        k # rest \<Rightarrow> Inl (RaisedHTTP (HTTPException 502 (MissingField k)))
      | [] \<Rightarrow>
          if map_of kvs ''decision'' \<noteq> Some (JStr ''tak'') \<and>
             map_of kvs ''decision'' \<noteq> Some (JStr ''nie'')
          then Inl (RaisedHTTP (HTTPException 502 BadDecision))
          else (case map_of kvs ''sources'' of
                  Some (JList xs) \<Rightarrow>
                    if length xs > 10 then Inl (RaisedHTTP (HTTPException 502 BadSources))
                    else Inr (JObj kvs)
                | _ \<Rightarrow> Inl (RaisedHTTP (HTTPException 502 BadSources))))"

text \<open>
  What the checks make of any decoded value. On a list or a string the tests of the field
  loop are membership and substring tests, and once they all hold the call of \<open>get\<close>
  raises; on \<open>None\<close>, a truth value or a number the first test raises.
\<close>

definition decoded_checks :: "json \<Rightarrow> raised + json" where
  "decoded_checks v =
     (case v of
        JObj kvs \<Rightarrow> checks_in_order kvs
      | JList xs \<Rightarrow>
          (case filter (\<lambda>k. JStr k \<notin> set xs) required of
             k # rest \<Rightarrow> Inl (RaisedHTTP (HTTPException 502 (MissingField k)))
           | [] \<Rightarrow> Inl (RaisedPy AttributeError))
      | JStr t \<Rightarrow>
          (case filter (\<lambda>k. \<not> is_substring k t) required of
             k # rest \<Rightarrow> Inl (RaisedHTTP (HTTPException 502 (MissingField k)))
           | [] \<Rightarrow> Inl (RaisedPy AttributeError))
      | _ \<Rightarrow> Inl (RaisedPy TypeError))"

section \<open>Sample inputs\<close>

text \<open>
  A world for the examples. Its \<open>urlparse\<close>, \<open>parse_qs\<close> and \<open>json.loads\<close> are tables
  of the values that the library functions return on the arguments the examples use;
  \<open>urlparse\<close> raises \<open>ValueError\<close> on \<open>http://[::1\<close>, whose bracket is not closed.
\<close>

definition sample_urlparse :: "string \<Rightarrow> parse_result option" where
  "sample_urlparse u =
     (if u = ''https://www.youtube.com/watch?v=abc123''
      then Some \<lparr>netloc = ''www.youtube.com'', path = ''/watch'', query = ''v=abc123''\<rparr>
      else if u = ''https://www.youtube.com/watch''
      then Some \<lparr>netloc = ''www.youtube.com'', path = ''/watch'', query = []\<rparr>
      else if u = ''https://www.youtube.com:443/watch?v=abc123''
      then Some \<lparr>netloc = ''www.youtube.com:443'', path = ''/watch'', query = ''v=abc123''\<rparr>
      else if u = ''https://WWW.YouTube.com/shorts/abc123''
      then Some \<lparr>netloc = ''WWW.YouTube.com'', path = ''/shorts/abc123'', query = []\<rparr>
      else if u = ''https://youtu.be/abc123''
      then Some \<lparr>netloc = ''youtu.be'', path = ''/abc123'', query = []\<rparr>
      else if u = ''https://youtu.be/watch?v=abc123''
      then Some \<lparr>netloc = ''youtu.be'', path = ''/watch'', query = ''v=abc123''\<rparr>
      else if u = ''https://example.com/news''
      then Some \<lparr>netloc = ''example.com'', path = ''/news'', query = []\<rparr>
      else if u = ''http://[::1''
      then None
      else None)"

definition sample_parse_qs :: "string \<Rightarrow> string \<rightharpoonup> string list" where
  "sample_parse_qs q = (if q = ''v=abc123'' then [''v'' \<mapsto> [''abc123'']] else Map.empty)"

definition raw_nie :: string where
  \<open>raw_nie = ''{"decision":"nie","summary":"","ai_explanatation":"","sources":[]}''\<close>

definition raw_extra :: string where
  \<open>raw_extra = ''{"decision":"nie","summary":"","ai_explanatation":"","sources":[],"score":1}''\<close>

definition raw_Tak :: string where
  \<open>raw_Tak = ''{"decision":"Tak","summary":"","ai_explanatation":"","sources":[]}''\<close>

definition raw_maybe :: string where
  \<open>raw_maybe = ''{"decision":"maybe","summary":"","ai_explanatation":"","sources":[]}''\<close>

definition raw_text_sources :: string where
  \<open>raw_text_sources = ''{"decision":"tak","summary":"","ai_explanatation":"","sources":"x"}''\<close>

definition raw_eleven :: string where
  \<open>raw_eleven =
     ''{"decision":"tak","summary":"","ai_explanatation":"","sources":["","","","","","","","","","",""]}''\<close>

definition raw_array :: string where
  \<open>raw_array = ''["decision","summary"]''\<close>

definition raw_partial :: string where
  \<open>raw_partial = ''{"decision":"maybe","sources":"x"}''\<close>

definition verdict_with :: "string \<Rightarrow> json \<Rightarrow> (string \<times> json) list" where
  "verdict_with d sources =
     [(''decision'', JStr d), (''summary'', JStr []), (''ai_explanatation'', JStr []),
      (''sources'', sources)]"

definition verdict_fields :: "string \<Rightarrow> (string \<times> json) list" where
  "verdict_fields d = verdict_with d (JList [])"

definition sample_json_loads :: "string \<Rightarrow> py_exc + json" where
  "sample_json_loads s =
     (if s = raw_nie then Inr (JObj (verdict_fields ''nie''))
      else if s = raw_extra then Inr (JObj (verdict_fields ''nie'' @ [(''score'', JInt 1)]))
      else if s = raw_Tak then Inr (JObj (verdict_fields ''Tak''))
      else if s = raw_maybe then Inr (JObj (verdict_fields ''maybe''))
      else if s = raw_text_sources then Inr (JObj (verdict_with ''tak'' (JStr ''x'')))
      else if s = raw_eleven then Inr (JObj (verdict_with ''tak'' (JList (replicate 11 (JStr [])))))
      else if s = raw_array then Inr (JList [JStr ''decision'', JStr ''summary''])
      else if s = ''5'' then Inr (JInt 5)
      else if s = raw_partial then Inr (JObj [(''decision'', JStr ''maybe''), (''sources'', JStr ''x'')])
      else Inl JSONDecodeError)"

definition quoted :: "string \<Rightarrow> string" where
  \<comment> \<open>a text as a JSON string: each double quote escaped\<close>
  "quoted s = [CHR 0x22] @ concat (map (\<lambda>c. if c = CHR 0x22 then [CHR 0x5C, c] else [c]) s) @ [CHR 0x22]"

definition reply :: "string \<Rightarrow> chat_outcome" where
  \<comment> \<open>a response of status 200 whose first choice has the given message content\<close>
  \<open>reply raw =
     Responded
       \<lparr>resp_status_code = 200,
        resp_text = ''{"choices":[{"message":{"role":"assistant","content":'' @ quoted raw @ ''}}]}'',
        resp_json =
          Inr (JObj [(''choices'',
                 JList [JObj [(''message'',
                   JObj [(''role'', JStr ''assistant''), (''content'', JStr raw)])]])])\<rparr>\<close>

definition refusal :: "int \<Rightarrow> string \<Rightarrow> chat_outcome" where
  \<comment> \<open>a response with the given status and a body that is not JSON\<close>
  "refusal code body =
     Responded \<lparr>resp_status_code = code, resp_text = body, resp_json = Inl JSONDecodeError\<rparr>"

definition sample_supadata :: "supadata_call \<Rightarrow> supadata_outcome" where
  "sample_supadata call =
     (case call of
        Transcript video_id \<Rightarrow> Content (Some (''transcript of '' @ video_id))
      | Scrape url \<Rightarrow> Content (Some (''page at '' @ url)))"

definition sample_world :: world where
  "sample_world =
     \<lparr>getenv = (\<lambda>name. Some ''secret''),
      urlparse = sample_urlparse,
      parse_qs = sample_parse_qs,
      supadata = sample_supadata,
      post_chat = (\<lambda>key text. reply raw_nie),
      json_loads = sample_json_loads\<rparr>"

definition sample_file :: upload_file where
  "sample_file = \<lparr>content_type = Some ''image/png'', filename = Some ''photo.png''\<rparr>"

definition sample_result :: json where
  "sample_result =
     JObj [(''status'', JStr ''AUTHENTIC''), (''score'', JFloat ''0.02''),
           (''models'', JList [JObj [(''name'', JStr ''m1''), (''status'', JStr ''AUTHENTIC''),
                                    (''score'', JFloat ''0.02'')]])]"

definition slow_detector :: detector where
  \<comment> \<open>the upload is accepted, the result would come after 120 seconds\<close>
  "slow_detector =
     \<lparr>rd_getenv = (\<lambda>name. Some ''secret''),
      tmp_file = Saved ''/tmp/tmpab12cd.png'',
      upload = (\<lambda>key p. Inr (JObj [(''request_id'', JStr ''r-1'')])),
      get_result = (\<lambda>request_id. (120, Inr sample_result)),
      remove_raises = (\<lambda>p. None)\<rparr>"

definition stuck_detector :: detector where
  \<comment> \<open>as \<open>slow_detector\<close>, and \<open>os.remove\<close> raises \<open>PermissionError\<close>\<close>
  "stuck_detector = slow_detector\<lparr>remove_raises := (\<lambda>p. Some (OtherException ''PermissionError''))\<rparr>"

section \<open>The validator\<close>

lemma require_fields_obj:
  "require_fields ks (JObj kvs) =
     (case filter (\<lambda>k. map_of kvs k = None) ks of
        [] \<Rightarrow> Inr ()
      | k # rest \<Rightarrow> Inl (RaisedHTTP (HTTPException 502 (MissingField k))))"
  by (induction ks) (simp_all add: and_then_def map_of_eq_None_iff)

lemma check_schema_obj: "check_schema (JObj kvs) = checks_in_order kvs"
proof (cases "filter (\<lambda>k. map_of kvs k = None) required")
  case Nil
  then have "\<forall>k \<in> set required. map_of kvs k \<noteq> None"
    by (simp add: filter_empty_conv)
  then have present: "map_of kvs ''decision'' \<noteq> None" "map_of kvs ''sources'' \<noteq> None"
    by (simp_all add: required_def)
  from Nil show ?thesis
    using present
    by (auto simp: check_schema_def checks_in_order_def require_fields_obj and_then_def
             split: option.splits json.splits)
next
  case (Cons k rest)
  then show ?thesis
    by (simp add: check_schema_def checks_in_order_def require_fields_obj and_then_def)
qed

lemma check_schema_only_obj: "check_schema v = Inr v' \<Longrightarrow> \<exists>kvs. v = JObj kvs"
  by (cases v) (auto simp: check_schema_def required_def and_then_def split: if_splits sum.splits)

lemma checks_in_order_ok:
  "checks_in_order kvs = Inr v' \<longleftrightarrow> satisfies_schema (JObj kvs) \<and> v' = JObj kvs"
  by (auto simp: checks_in_order_def satisfies_schema_def filter_empty_conv
           split: list.splits option.splits json.splits if_splits)

lemma check_schema_ok: "check_schema v = Inr v' \<longleftrightarrow> satisfies_schema v \<and> v' = v"
proof (cases "\<exists>kvs. v = JObj kvs")
  case True
  then show ?thesis by (auto simp: check_schema_obj checks_in_order_ok)
next
  case False
  then have "\<not> satisfies_schema v"
    by (cases v) (simp_all add: satisfies_schema_def)
  with False show ?thesis
    using check_schema_only_obj by blast
qed

lemma validate_text_decoded: "json_loads w s = Inr v \<Longrightarrow> validate_text w (JStr s) = check_schema v"
  by (simp add: validate_text_def loads_def)

lemma validate_link_decoded: "json_loads w s = Inr v \<Longrightarrow> validate_link w (JStr s) = check_schema v"
  by (simp add: validate_link_def loads_def from_library_def and_then_def)

lemma validate_text_ok:
  "validate_text w c = Inr v \<longleftrightarrow> (\<exists>s. c = JStr s \<and> json_loads w s = Inr v \<and> satisfies_schema v)"
  by (cases c) (auto simp: validate_text_def loads_def check_schema_ok split: sum.splits py_exc.splits)

lemma validate_link_ok:
  "validate_link w c = Inr v \<longleftrightarrow> (\<exists>s. c = JStr s \<and> json_loads w s = Inr v \<and> satisfies_schema v)"
  by (cases c)
     (auto simp: validate_link_def loads_def from_library_def and_then_def check_schema_ok
           split: sum.splits)

lemma handlers_ok: "handlers r = Inr v \<longleftrightarrow> r = Inr v"
  by (auto simp: handlers_def split: sum.splits raised.splits)

lemma and_then_ok: "and_then m f = Inr v \<longleftrightarrow> (\<exists>x. m = Inr x \<and> f x = Inr v)"
  by (cases m) (simp_all add: and_then_def)

lemma analysis_verdict:
  assumes "handlers (and_then (answer outcome) validate) = Inr v"
    and "\<And>c. validate c = Inr v \<Longrightarrow> satisfies_schema v"
  shows "satisfies_schema v"
proof -
  from assms(1) have "and_then (answer outcome) validate = Inr v"
    by (simp add: handlers_ok)
  then obtain c where "validate c = Inr v"
    by (auto simp: and_then_ok)
  then show ?thesis by (rule assms(2))
qed

lemma verify_text_verdict:
  assumes "verify_text_disinfo w text = Inr v"
  shows "satisfies_schema v"
proof (cases "getenv w ''XAI_API_KEY''")
  case None
  with assms show ?thesis by (simp add: verify_text_disinfo_def)
next
  case (Some key)
  with assms have "handlers (and_then (answer (post_chat w key text)) (validate_text w)) = Inr v"
    by (simp add: verify_text_disinfo_def split: if_splits)
  then show ?thesis
    by (rule analysis_verdict) (auto simp: validate_text_ok)
qed

lemma verify_link_verdict:
  assumes "verify_link w url = Inr v"
  shows "satisfies_schema v"
proof (cases "getenv w ''XAI_API_KEY''")
  case None
  with assms show ?thesis by (simp add: verify_link_def split: if_splits)
next
  case (Some key)
  show ?thesis
  proof (cases "link_content w url")
    case (Inl h)
    with assms Some show ?thesis by (simp add: verify_link_def split: if_splits)
  next
    case (Inr content)
    with assms Some
    have "handlers (and_then (answer (post_chat w key content)) (validate_link w)) = Inr v"
      by (simp add: verify_link_def split: if_splits)
    then show ?thesis
      by (rule analysis_verdict) (auto simp: validate_link_ok)
  qed
qed

lemmas sample_defs =
  sample_world_def sample_json_loads_def sample_urlparse_def sample_parse_qs_def sample_supadata_def
  raw_nie_def raw_extra_def raw_Tak_def raw_maybe_def raw_text_sources_def raw_eleven_def
  raw_array_def raw_partial_def verdict_fields_def verdict_with_def reply_def refusal_def

lemmas validator_defs =
  validate_text_def validate_link_def loads_def check_schema_def required_def and_then_def
  from_library_def handlers_def answer_def message_content_def

text \<open>
  C2. The validator succeeds exactly on the texts that decode to a value satisfying the
  verdict schema, and then returns that value as decoded, unchanged: it succeeds on every
  such object, and nothing else is ever returned as a verdict. This holds for the
  validator of the text endpoint and for the one of the link endpoint; and whatever
  either endpoint returns satisfies the schema.
\<close>

theorem validator_round_trip:
  "(validate_text w c = Inr v \<longleftrightarrow>
      (\<exists>s. c = JStr s \<and> json_loads w s = Inr v \<and> satisfies_schema v)) \<and>
   (validate_link w c = Inr v \<longleftrightarrow>
      (\<exists>s. c = JStr s \<and> json_loads w s = Inr v \<and> satisfies_schema v)) \<and>
   (verify_text_disinfo w text = Inr v \<longrightarrow> satisfies_schema v) \<and>
   (verify_link w url = Inr v \<longrightarrow> satisfies_schema v)"
proof (intro conjI impI)
  show "validate_text w c = Inr v \<longleftrightarrow>
      (\<exists>s. c = JStr s \<and> json_loads w s = Inr v \<and> satisfies_schema v)"
    by (rule validate_text_ok)
  show "validate_link w c = Inr v \<longleftrightarrow>
      (\<exists>s. c = JStr s \<and> json_loads w s = Inr v \<and> satisfies_schema v)"
    by (rule validate_link_ok)
  assume "verify_text_disinfo w text = Inr v"
  then show "satisfies_schema v" by (rule verify_text_verdict)
next
  assume "verify_link w url = Inr v"
  then show "satisfies_schema v" by (rule verify_link_verdict)
qed

theorem validator_round_trip_witness:
  "satisfies_schema (JObj (verdict_fields ''nie'')) \<and>
   validate_text sample_world (JStr raw_nie) = Inr (JObj (verdict_fields ''nie'')) \<and>
   validate_link sample_world (JStr raw_nie) = Inr (JObj (verdict_fields ''nie'')) \<and>
   verify_text_disinfo sample_world ''Some text'' = Inr (JObj (verdict_fields ''nie''))"
proof -
  have decoded: "json_loads sample_world raw_nie = Inr (JObj (verdict_fields ''nie''))"
    by (simp add: sample_world_def sample_json_loads_def)
  have ok: "satisfies_schema (JObj (verdict_fields ''nie''))"
    by (simp add: satisfies_schema_def verdict_fields_def verdict_with_def required_def)
  have run: "verify_text_disinfo sample_world ''Some text'' = Inr (JObj (verdict_fields ''nie''))"
    by (simp add: sample_defs verify_text_disinfo_def validator_defs)
  show ?thesis
    using validator_round_trip [of sample_world "JStr raw_nie" "JObj (verdict_fields ''nie'')"
        "''Some text''" "''https://example.com/news''"] decoded ok run
    by simp
qed

lemma require_fields_list:
  "require_fields ks (JList xs) =
     (case filter (\<lambda>k. JStr k \<notin> set xs) ks of
        [] \<Rightarrow> Inr ()
      | k # rest \<Rightarrow> Inl (RaisedHTTP (HTTPException 502 (MissingField k))))"
  by (induction ks) (simp_all add: and_then_def)

lemma require_fields_str:
  "require_fields ks (JStr t) =
     (case filter (\<lambda>k. \<not> is_substring k t) ks of
        [] \<Rightarrow> Inr ()
      | k # rest \<Rightarrow> Inl (RaisedHTTP (HTTPException 502 (MissingField k))))"
  by (induction ks) (simp_all add: and_then_def)

lemma check_schema_decoded: "check_schema v = decoded_checks v"
proof (cases v)
  case (JObj kvs)
  then show ?thesis by (simp add: check_schema_obj decoded_checks_def)
next
  case (JList xs)
  then show ?thesis
    by (simp add: check_schema_def decoded_checks_def require_fields_list and_then_def
          split: list.splits)
next
  case (JStr t)
  then show ?thesis
    by (simp add: check_schema_def decoded_checks_def require_fields_str and_then_def
          split: list.splits)
qed (simp_all add: check_schema_def decoded_checks_def required_def and_then_def)

text \<open>
  C8, as amended. The validator's checks come in a fixed order and the first failure
  wins. In the text endpoint a text that does not decode fails as invalid JSON. On a
  decoded object both endpoints name the first required field that is absent, then
  refuse a decision outside the two tokens, then refuse sources that are not a list or
  have more than ten entries, with one and the same error for the two. A decoded value
  that is not an object never passes: it fails as a missing field, or with the exception
  that the first test or the first \<open>get\<close> raises.
\<close>

theorem validator_checks_in_order:
  "(json_loads w s = Inl JSONDecodeError \<longrightarrow>
      handlers (validate_text w (JStr s)) = Inl (HTTPException 502 InvalidJson)) \<and>
   (json_loads w s = Inr v \<longrightarrow>
      validate_text w (JStr s) = decoded_checks v \<and>
      validate_link w (JStr s) = decoded_checks v) \<and>
   (json_loads w s = Inr (JObj kvs) \<longrightarrow>
      validate_text w (JStr s) = checks_in_order kvs \<and>
      validate_link w (JStr s) = checks_in_order kvs)"
proof (intro conjI impI)
  assume "json_loads w s = Inl JSONDecodeError"
  then show "handlers (validate_text w (JStr s)) = Inl (HTTPException 502 InvalidJson)"
    by (simp add: validate_text_def loads_def handlers_def)
next
  assume "json_loads w s = Inr v"
  then show "validate_text w (JStr s) = decoded_checks v" "validate_link w (JStr s) = decoded_checks v"
    by (simp_all add: validate_text_decoded validate_link_decoded check_schema_decoded)
next
  assume "json_loads w s = Inr (JObj kvs)"
  then show "validate_text w (JStr s) = checks_in_order kvs"
    "validate_link w (JStr s) = checks_in_order kvs"
    by (simp_all add: validate_text_decoded validate_link_decoded check_schema_obj)
qed

theorem validator_checks_in_order_witness:
  "handlers (validate_text sample_world (JStr ''{'')) = Inl (HTTPException 502 InvalidJson) \<and>
   validate_text sample_world (JStr raw_partial) =
     Inl (RaisedHTTP (HTTPException 502 (MissingField ''summary''))) \<and>
   validate_link sample_world (JStr raw_partial) =
     Inl (RaisedHTTP (HTTPException 502 (MissingField ''summary''))) \<and>
   validate_text sample_world (JStr raw_maybe) = Inl (RaisedHTTP (HTTPException 502 BadDecision)) \<and>
   validate_text sample_world (JStr raw_text_sources) =
     Inl (RaisedHTTP (HTTPException 502 BadSources)) \<and>
   validate_text sample_world (JStr raw_eleven) = Inl (RaisedHTTP (HTTPException 502 BadSources)) \<and>
   validate_link sample_world (JStr raw_array) =
     Inl (RaisedHTTP (HTTPException 502 (MissingField ''ai_explanatation''))) \<and>
   validate_text sample_world (JStr ''5'') = Inl (RaisedPy TypeError)"
proof -
  let ?partial = "[(''decision'', JStr ''maybe''), (''sources'', JStr ''x'')]"
  let ?eleven = "verdict_with ''tak'' (JList (replicate 11 (JStr [])))"
  let ?array = "JList [JStr ''decision'', JStr ''summary'']"
  have decoded: "json_loads sample_world ''{'' = Inl JSONDecodeError"
    "json_loads sample_world raw_partial = Inr (JObj ?partial)"
    "json_loads sample_world raw_maybe = Inr (JObj (verdict_fields ''maybe''))"
    "json_loads sample_world raw_text_sources = Inr (JObj (verdict_with ''tak'' (JStr ''x'')))"
    "json_loads sample_world raw_eleven = Inr (JObj ?eleven)"
    "json_loads sample_world raw_array = Inr ?array"
    "json_loads sample_world ''5'' = Inr (JInt 5)"
    by (simp_all add: sample_defs)
  have steps:
    "checks_in_order ?partial = Inl (RaisedHTTP (HTTPException 502 (MissingField ''summary'')))"
    "checks_in_order (verdict_fields ''maybe'') = Inl (RaisedHTTP (HTTPException 502 BadDecision))"
    "checks_in_order (verdict_with ''tak'' (JStr ''x'')) = Inl (RaisedHTTP (HTTPException 502 BadSources))"
    "checks_in_order ?eleven = Inl (RaisedHTTP (HTTPException 502 BadSources))"
    by (simp_all add: checks_in_order_def required_def verdict_fields_def verdict_with_def)
  have others:
    "decoded_checks ?array = Inl (RaisedHTTP (HTTPException 502 (MissingField ''ai_explanatation'')))"
    "decoded_checks (JInt 5) = Inl (RaisedPy TypeError)"
    by (simp_all add: decoded_checks_def required_def)
  have a: "handlers (validate_text sample_world (JStr ''{'')) = Inl (HTTPException 502 InvalidJson)"
    using validator_checks_in_order [of sample_world "''{''" JNull "[]"] decoded(1) by blast
  have b: "validate_text sample_world (JStr raw_partial) = checks_in_order ?partial"
    "validate_link sample_world (JStr raw_partial) = checks_in_order ?partial"
    using validator_checks_in_order [of sample_world raw_partial "JObj ?partial" ?partial] decoded(2)
    by blast+
  have c: "validate_text sample_world (JStr raw_maybe) = checks_in_order (verdict_fields ''maybe'')"
    using validator_checks_in_order [of sample_world raw_maybe "JObj (verdict_fields ''maybe'')"
        "verdict_fields ''maybe''"] decoded(3)
    by blast
  have d: "validate_text sample_world (JStr raw_text_sources) =
      checks_in_order (verdict_with ''tak'' (JStr ''x''))"
    using validator_checks_in_order [of sample_world raw_text_sources
        "JObj (verdict_with ''tak'' (JStr ''x''))" "verdict_with ''tak'' (JStr ''x'')"] decoded(4)
    by blast
  have e: "validate_text sample_world (JStr raw_eleven) = checks_in_order ?eleven"
    using validator_checks_in_order [of sample_world raw_eleven "JObj ?eleven" ?eleven] decoded(5)
    by blast
  have f: "validate_link sample_world (JStr raw_array) = decoded_checks ?array"
    using validator_checks_in_order [of sample_world raw_array ?array "[]"] decoded(6)
    by blast
  have g: "validate_text sample_world (JStr ''5'') = decoded_checks (JInt 5)"
    using validator_checks_in_order [of sample_world "''5''" "JInt 5" "[]"] decoded(7)
    by blast
  show ?thesis
    unfolding a b c d e f g steps others by simp
qed

text \<open>
  C8 as stated fails. Sources that are a string and sources of eleven entries end in the
  same error, lines 212 and 213 having one for both; and in the link endpoint a text that
  does not decode is not reported as invalid JSON: line 346 stands outside any handler
  of \<open>JSONDecodeError\<close>, and the general handler of line 361 reports it.
\<close>

theorem sources_errors_counterexample:
  "verify_text_disinfo (sample_world\<lparr>post_chat := \<lambda>key text. reply raw_text_sources\<rparr>) ''Some text'' =
     Inl (HTTPException 502 BadSources) \<and>
   verify_text_disinfo (sample_world\<lparr>post_chat := \<lambda>key text. reply raw_eleven\<rparr>) ''Some text'' =
     Inl (HTTPException 502 BadSources) \<and>
   verify_text_disinfo (sample_world\<lparr>post_chat := \<lambda>key text. reply ''{''\<rparr>) ''Some text'' =
     Inl (HTTPException 502 InvalidJson) \<and>
   verify_link (sample_world\<lparr>post_chat := \<lambda>key text. reply ''{''\<rparr>) ''https://example.com/news'' =
     Inl (HTTPException 502 (AnalysisFailed JSONDecodeError))"
  by (simp add: sample_defs verify_text_disinfo_def verify_link_def missing_def validator_defs
        link_content_def link_call_def extract_youtube_video_id_def youtube_hosts_def
        lower_def lower_char_def startswith_def strip_def isspace_def)

text \<open>
  C10. In both endpoints, on a decoded object with the four fields, the decision is
  refused as invalid exactly when it is neither the string \<open>tak\<close> nor the string
  \<open>nie\<close>; so \<open>yes\<close>, \<open>no\<close> and \<open>Tak\<close> are refused.
\<close>

theorem decision_tokens:
  assumes "json_loads w s = Inr (JObj kvs)"
    and "\<forall>k \<in> set required. map_of kvs k \<noteq> None"
  shows "(validate_text w (JStr s) = Inl (RaisedHTTP (HTTPException 502 BadDecision))) =
           (map_of kvs ''decision'' \<noteq> Some (JStr ''tak'') \<and>
            map_of kvs ''decision'' \<noteq> Some (JStr ''nie'')) \<and>
         (validate_link w (JStr s) = Inl (RaisedHTTP (HTTPException 502 BadDecision))) =
           (map_of kvs ''decision'' \<noteq> Some (JStr ''tak'') \<and>
            map_of kvs ''decision'' \<noteq> Some (JStr ''nie'')) \<and>
         (map_of kvs ''decision'' \<in> {Some (JStr ''yes''), Some (JStr ''no''), Some (JStr ''Tak'')} \<longrightarrow>
            validate_text w (JStr s) = Inl (RaisedHTTP (HTTPException 502 BadDecision)) \<and>
            validate_link w (JStr s) = Inl (RaisedHTTP (HTTPException 502 BadDecision)))"
proof -
  have none_missing: "filter (\<lambda>k. map_of kvs k = None) required = []"
    using assms(2) by (simp add: filter_empty_conv)
  have "(checks_in_order kvs = Inl (RaisedHTTP (HTTPException 502 BadDecision))) =
          (map_of kvs ''decision'' \<noteq> Some (JStr ''tak'') \<and>
           map_of kvs ''decision'' \<noteq> Some (JStr ''nie''))"
    by (simp add: checks_in_order_def none_missing split: option.splits json.splits)
  then show ?thesis
    using assms(1) by (auto simp: validate_text_decoded validate_link_decoded check_schema_obj)
qed

theorem decision_tokens_witness:
  "json_loads sample_world raw_Tak = Inr (JObj (verdict_fields ''Tak'')) \<and>
   map_of (verdict_fields ''Tak'') ''decision'' = Some (JStr ''Tak'') \<and>
   validate_text sample_world (JStr raw_Tak) = Inl (RaisedHTTP (HTTPException 502 BadDecision)) \<and>
   validate_link sample_world (JStr raw_Tak) = Inl (RaisedHTTP (HTTPException 502 BadDecision))"
proof -
  have decoded: "json_loads sample_world raw_Tak = Inr (JObj (verdict_fields ''Tak''))"
    by (simp add: sample_defs)
  have present: "\<forall>k \<in> set required. map_of (verdict_fields ''Tak'') k \<noteq> None"
    by (simp add: verdict_fields_def verdict_with_def required_def)
  have decision: "map_of (verdict_fields ''Tak'') ''decision'' = Some (JStr ''Tak'')"
    by (simp add: verdict_fields_def verdict_with_def)
  then show ?thesis
    using decision_tokens [OF decoded present] decoded by simp
qed

lemma map_of_extra: "k' \<noteq> k \<Longrightarrow> map_of (xs @ (k, x) # ys) k' = map_of (xs @ ys) k'"
  by (induction xs) auto

lemma satisfies_schema_extra:
  assumes "k \<notin> set required"
  shows "satisfies_schema (JObj (xs @ (k, x) # ys)) = satisfies_schema (JObj (xs @ ys))"
proof -
  have same: "map_of (xs @ (k, x) # ys) k' = map_of (xs @ ys) k'" if "k' \<in> set required" for k'
    using that assms map_of_extra by metis
  have "''decision'' \<in> set required" "''sources'' \<in> set required"
    by (simp_all add: required_def)
  then have "map_of (xs @ (k, x) # ys) ''decision'' = map_of (xs @ ys) ''decision''"
    "map_of (xs @ (k, x) # ys) ''sources'' = map_of (xs @ ys) ''sources''"
    using same by blast+
  moreover have "(\<forall>k' \<in> set required. map_of (xs @ (k, x) # ys) k' \<noteq> None) =
      (\<forall>k' \<in> set required. map_of (xs @ ys) k' \<noteq> None)"
    using same by simp
  ultimately show ?thesis
    unfolding satisfies_schema_def by simp
qed

text \<open>
  C5, as amended. The validation on the client's side does not look at fields other than
  the four required ones: an object with an additional field, wherever it stands, passes
  the checks and is returned with that field exactly when the object without it passes.
  (The schema sent to the provider is the one that forbids additional properties.)
\<close>

theorem additional_field_is_kept:
  assumes "k \<notin> set required"
  shows "(check_schema (JObj (xs @ (k, x) # ys)) = Inr (JObj (xs @ (k, x) # ys))) =
         (check_schema (JObj (xs @ ys)) = Inr (JObj (xs @ ys)))"
  using satisfies_schema_extra [OF assms] by (simp add: check_schema_ok)

theorem additional_field_is_kept_witness:
  "''score'' \<notin> set required \<and>
   check_schema (JObj (verdict_fields ''nie'')) = Inr (JObj (verdict_fields ''nie'')) \<and>
   check_schema (JObj (verdict_fields ''nie'' @ [(''score'', JInt 1)])) =
     Inr (JObj (verdict_fields ''nie'' @ [(''score'', JInt 1)]))"
proof -
  have extra: "''score'' \<notin> set required"
    by (simp add: required_def)
  have plain: "check_schema (JObj (verdict_fields ''nie'')) = Inr (JObj (verdict_fields ''nie''))"
    by (simp add: check_schema_ok satisfies_schema_def verdict_fields_def verdict_with_def required_def)
  show ?thesis
    using additional_field_is_kept [OF extra, of "verdict_fields ''nie''" "JInt 1" "[]"] extra plain
    by simp
qed

text \<open>
  C5 as stated fails: a response with the field \<open>score\<close> beside the four required ones is
  returned as the verdict by both endpoints.
\<close>

theorem additional_field_counterexample:
  "json_loads sample_world raw_extra = Inr (JObj (verdict_fields ''nie'' @ [(''score'', JInt 1)])) \<and>
   verify_text_disinfo (sample_world\<lparr>post_chat := \<lambda>key text. reply raw_extra\<rparr>) ''Some text'' =
     Inr (JObj (verdict_fields ''nie'' @ [(''score'', JInt 1)])) \<and>
   verify_link (sample_world\<lparr>post_chat := \<lambda>key text. reply raw_extra\<rparr>) ''https://example.com/news'' =
     Inr (JObj (verdict_fields ''nie'' @ [(''score'', JInt 1)]))"
  by (simp add: sample_defs verify_text_disinfo_def verify_link_def missing_def validator_defs
        link_content_def link_call_def extract_youtube_video_id_def youtube_hosts_def
        lower_def lower_char_def startswith_def strip_def isspace_def)

section \<open>The endpoints\<close>

lemma require_fields_502: "require_fields ks v = Inl r \<Longrightarrow> surfaces_502 r"
proof (induction ks)
  case Nil
  then show ?case by simp
next
  case (Cons k ks)
  then show ?case
    by (cases v) (auto simp: and_then_def surfaces_502_def split: if_splits)
qed

lemma get_502: "get v k d = Inl r \<Longrightarrow> surfaces_502 r"
  by (cases v) (auto simp: surfaces_502_def)

lemma check_schema_502: "check_schema v = Inl r \<Longrightarrow> surfaces_502 r"
  unfolding check_schema_def and_then_def
  by (auto simp: surfaces_502_def split: sum.splits if_splits json.splits
           dest: require_fields_502 get_502)

lemma validate_text_502: "validate_text w c = Inl r \<Longrightarrow> surfaces_502 r"
  unfolding validate_text_def
  by (auto simp: surfaces_502_def split: sum.splits py_exc.splits dest: check_schema_502)

lemma validate_link_502: "validate_link w c = Inl r \<Longrightarrow> surfaces_502 r"
  unfolding validate_link_def and_then_def from_library_def
  by (auto simp: surfaces_502_def split: sum.splits dest: check_schema_502)

lemma item0_502: "item0 v = Inl r \<Longrightarrow> surfaces_502 r"
  by (cases v rule: item0.cases) (auto simp: surfaces_502_def)

lemma message_content_502: "message_content data = Inl r \<Longrightarrow> surfaces_502 r"
  unfolding message_content_def and_then_def
  by (auto split: sum.splits dest: get_502 item0_502)

lemma answer_refused:
  "400 \<le> resp_status_code resp \<Longrightarrow>
   answer (Responded resp) =
     Inl (RaisedHTTP (HTTPException (resp_status_code resp) (ProviderError (resp_text resp))))"
  by (simp add: answer_def)

lemma answer_502:
  assumes "answer outcome = Inl r"
    and "\<not> (\<exists>resp. outcome = Responded resp \<and> 400 \<le> resp_status_code resp)"
  shows "surfaces_502 r"
proof (cases outcome)
  case (Responded resp)
  with assms(2) have "\<not> 400 \<le> resp_status_code resp" by simp
  with assms(1) Responded show ?thesis
    unfolding answer_def and_then_def from_library_def
    by (auto simp: surfaces_502_def split: sum.splits if_splits dest: message_content_502)
next
  case (ChatRaised e)
  with assms(1) show ?thesis
    by (auto simp: answer_def surfaces_502_def)
qed

lemma handlers_502:
  "surfaces_502 r \<Longrightarrow> handlers (Inl r :: raised + json) = Inl h \<Longrightarrow> status_of h = 502"
  by (cases r) (auto simp: handlers_def surfaces_502_def)

lemma analysis_502:
  assumes "handlers (and_then (answer outcome) validate :: raised + json) = Inl h"
    and "\<not> (\<exists>resp. outcome = Responded resp \<and> 400 \<le> resp_status_code resp)"
    and "\<And>c r. validate c = Inl r \<Longrightarrow> surfaces_502 r"
  shows "status_of h = 502"
proof (cases "answer outcome")
  case (Inl r)
  then have "surfaces_502 r" using answer_502 assms(2) by blast
  moreover have "handlers (Inl r :: raised + json) = Inl h"
    using assms(1) Inl by (simp add: and_then_def handlers_def)
  ultimately show ?thesis using handlers_502 by blast
next
  case (Inr c)
  then have *: "handlers (validate c) = Inl h"
    using assms(1) by (simp add: and_then_def)
  then obtain r where r: "validate c = Inl r"
    by (cases "validate c") (auto simp: handlers_def)
  then have "surfaces_502 r" using assms(3) by blast
  then show ?thesis using * r handlers_502 by metis
qed

text \<open>
  C4, as amended. In the text endpoint a missing credential surfaces as 500. With the
  credential set, a response of the inference provider with a status of 400 or more
  surfaces with the provider's own status and its body; every other failure (an exception
  of the call, a response that cannot be decoded or has no content, a validation failure)
  surfaces as 502.
\<close>

theorem text_endpoint_failures:
  "(missing (getenv w ''XAI_API_KEY'') \<longrightarrow>
      verify_text_disinfo w text = Inl (HTTPException 500 (MissingConfig ''XAI_API_KEY''))) \<and>
   (getenv w ''XAI_API_KEY'' = Some key \<and> key \<noteq> [] \<longrightarrow>
      (\<forall>resp. post_chat w key text = Responded resp \<and> 400 \<le> resp_status_code resp \<longrightarrow>
         verify_text_disinfo w text =
           Inl (HTTPException (resp_status_code resp) (ProviderError (resp_text resp)))) \<and>
      (\<forall>h. verify_text_disinfo w text = Inl h \<and>
           \<not> (\<exists>resp. post_chat w key text = Responded resp \<and> 400 \<le> resp_status_code resp) \<longrightarrow>
         status_of h = 502))"
proof (intro conjI impI allI)
  assume "missing (getenv w ''XAI_API_KEY'')"
  then show "verify_text_disinfo w text = Inl (HTTPException 500 (MissingConfig ''XAI_API_KEY''))"
    by (auto simp: verify_text_disinfo_def missing_def split: option.splits)
next
  fix resp
  assume "getenv w ''XAI_API_KEY'' = Some key \<and> key \<noteq> []"
    and "post_chat w key text = Responded resp \<and> 400 \<le> resp_status_code resp"
  then show "verify_text_disinfo w text =
      Inl (HTTPException (resp_status_code resp) (ProviderError (resp_text resp)))"
    by (simp add: verify_text_disinfo_def answer_refused and_then_def handlers_def)
next
  fix h
  assume key: "getenv w ''XAI_API_KEY'' = Some key \<and> key \<noteq> []"
    and failed: "verify_text_disinfo w text = Inl h \<and>
      \<not> (\<exists>resp. post_chat w key text = Responded resp \<and> 400 \<le> resp_status_code resp)"
  from key failed have "handlers (and_then (answer (post_chat w key text)) (validate_text w)) = Inl h"
    by (simp add: verify_text_disinfo_def)
  then show "status_of h = 502"
    using analysis_502 [of "post_chat w key text" "validate_text w" h] failed validate_text_502
    by blast
qed

theorem text_endpoint_failures_witness:
  "missing (getenv (sample_world\<lparr>getenv := \<lambda>name. None\<rparr>) ''XAI_API_KEY'') \<and>
   verify_text_disinfo (sample_world\<lparr>getenv := \<lambda>name. None\<rparr>) ''Some text'' =
     Inl (HTTPException 500 (MissingConfig ''XAI_API_KEY'')) \<and>
   verify_text_disinfo (sample_world\<lparr>post_chat := \<lambda>key text. refusal 429 ''Too Many Requests''\<rparr>)
       ''Some text'' =
     Inl (HTTPException 429 (ProviderError ''Too Many Requests'')) \<and>
   verify_text_disinfo (sample_world\<lparr>post_chat := \<lambda>key text. reply raw_Tak\<rparr>) ''Some text'' =
     Inl (HTTPException 502 BadDecision)"
proof -
  let ?none = "sample_world\<lparr>getenv := \<lambda>name. None\<rparr>"
  let ?busy = "sample_world\<lparr>post_chat := \<lambda>key text. refusal 429 ''Too Many Requests''\<rparr>"
  let ?odd = "sample_world\<lparr>post_chat := \<lambda>key text. reply raw_Tak\<rparr>"
  have unset: "missing (getenv ?none ''XAI_API_KEY'')"
    by (simp add: missing_def)
  have busy: "getenv ?busy ''XAI_API_KEY'' = Some ''secret'' \<and> ''secret'' \<noteq> []"
    "post_chat ?busy ''secret'' ''Some text'' =
       Responded \<lparr>resp_status_code = 429, resp_text = ''Too Many Requests'',
                  resp_json = Inl JSONDecodeError\<rparr>"
    by (simp_all add: sample_world_def refusal_def)
  have odd: "verify_text_disinfo ?odd ''Some text'' = Inl (HTTPException 502 BadDecision)"
    by (simp add: sample_defs verify_text_disinfo_def validator_defs)
  have odd_key: "getenv ?odd ''XAI_API_KEY'' = Some ''secret'' \<and> ''secret'' \<noteq> []"
    "\<not> (\<exists>resp. post_chat ?odd ''secret'' ''Some text'' = Responded resp \<and> 400 \<le> resp_status_code resp)"
    by (auto simp: sample_world_def reply_def)
  show ?thesis
    using text_endpoint_failures [of ?none "''Some text''" "''secret''"]
      text_endpoint_failures [of ?busy "''Some text''" "''secret''"]
      text_endpoint_failures [of ?odd "''Some text''" "''secret''"]
      unset busy odd odd_key
    by simp
qed

text \<open>
  C4 as stated fails: with the credential set, a provider response of status 500 surfaces
  as 500 and one of status 429 as 429, not as 502.
\<close>

theorem provider_status_counterexample:
  "getenv sample_world ''XAI_API_KEY'' = Some ''secret'' \<and>
   verify_text_disinfo
       (sample_world\<lparr>post_chat := \<lambda>key text. refusal 500 ''Internal Server Error''\<rparr>) ''Some text'' =
     Inl (HTTPException 500 (ProviderError ''Internal Server Error'')) \<and>
   verify_text_disinfo
       (sample_world\<lparr>post_chat := \<lambda>key text. refusal 429 ''Too Many Requests''\<rparr>) ''Some text'' =
     Inl (HTTPException 429 (ProviderError ''Too Many Requests''))"
  by (simp add: sample_world_def refusal_def verify_text_disinfo_def answer_def and_then_def
        handlers_def)

section \<open>The extraction\<close>

lemma link_endpoint_extraction_failure:
  assumes "\<not> missing (getenv w ''SUPADATA_API_KEY'')" "\<not> missing (getenv w ''XAI_API_KEY'')"
    and "link_content w url = Inl h"
  shows "verify_link w url = Inl h"
  using assms by (auto simp: verify_link_def missing_def split: option.splits)

text \<open>
  C6. When the call to the extraction provider succeeds and the text it gives is empty
  after trimming white space (a content of \<open>None\<close> counts as empty), the link endpoint
  fails with status 422, whatever else the provider reports.
\<close>

theorem empty_content_is_422:
  assumes "\<not> missing (getenv w ''SUPADATA_API_KEY'')" "\<not> missing (getenv w ''XAI_API_KEY'')"
    and "supadata w (link_call w url) = Content c"
    and "strip (case c of None \<Rightarrow> [] | Some s \<Rightarrow> s) = []"
  shows "verify_link w url = Inl (HTTPException 422 NoContent)"
proof -
  have "link_content w url = Inl (HTTPException 422 NoContent)"
    using assms(3,4) by (simp add: link_content_def)
  then show ?thesis
    using assms(1,2) by (rule link_endpoint_extraction_failure [rotated 2])
qed

theorem empty_content_is_422_witness:
  "strip [CHR 0x20, CHR 0x0A, CHR 0x09, CHR 0x20] = [] \<and>
   verify_link (sample_world\<lparr>supadata := \<lambda>call. Content (Some [CHR 0x20, CHR 0x0A, CHR 0x09, CHR 0x20])\<rparr>)
       ''https://example.com/news'' =
     Inl (HTTPException 422 NoContent) \<and>
   verify_link (sample_world\<lparr>supadata := \<lambda>call. Content None\<rparr>) ''https://youtu.be/abc123'' =
     Inl (HTTPException 422 NoContent)"
proof -
  let ?blank = "sample_world\<lparr>supadata := \<lambda>call. Content (Some [CHR 0x20, CHR 0x0A, CHR 0x09, CHR 0x20])\<rparr>"
  let ?none = "sample_world\<lparr>supadata := \<lambda>call. Content None\<rparr>"
  have keys: "\<not> missing (getenv ?blank ''SUPADATA_API_KEY'')" "\<not> missing (getenv ?blank ''XAI_API_KEY'')"
    "\<not> missing (getenv ?none ''SUPADATA_API_KEY'')" "\<not> missing (getenv ?none ''XAI_API_KEY'')"
    by (simp_all add: sample_world_def missing_def)
  have blank: "strip [CHR 0x20, CHR 0x0A, CHR 0x09, CHR 0x20] = []"
    by (simp add: strip_def isspace_def)
  have "strip (case Some [CHR 0x20, CHR 0x0A, CHR 0x09, CHR 0x20] of None \<Rightarrow> [] | Some s \<Rightarrow> s) = []"
    using blank by simp
  moreover have "strip (case None of None \<Rightarrow> [] | Some s \<Rightarrow> s) = []"
    by (simp add: strip_def)
  ultimately show ?thesis
    using empty_content_is_422 [of ?blank "''https://example.com/news''"
        "Some [CHR 0x20, CHR 0x0A, CHR 0x09, CHR 0x20]"]
      empty_content_is_422 [of ?none "''https://youtu.be/abc123''" None]
      keys blank
    by simp
qed



section \<open>The video identifier\<close>

lemma split_on_segment: "c \<notin> set a \<Longrightarrow> split_on c (a @ c # r) = a # split_on c r"
  by (induction a) auto

lemma split_on_whole: "c \<notin> set a \<Longrightarrow> split_on c a = [a]"
  by (induction a) auto

lemma split_on_first:
  "c \<notin> set a \<Longrightarrow> rest = [] \<or> (\<exists>r. rest = c # r) \<Longrightarrow> \<exists>more. split_on c (a @ rest) = a # more"
  by (auto simp: split_on_segment split_on_whole)

lemma host_sets_apart: "h \<in> youtube_hosts \<Longrightarrow> h \<noteq> ''youtu.be''"
  by (auto simp: youtube_hosts_def)

lemma watch_id:
  assumes "urlparse w u = Some parsed" "lower (netloc parsed) \<in> youtube_hosts"
    "startswith ''/watch'' (path parsed)" "parse_qs w (query parsed) ''v'' = Some (v # vs)" "v \<noteq> []"
  shows "extract_youtube_video_id w u = Some v"
  using assms by (simp add: extract_youtube_video_id_def Let_def)

lemma shorts_id:
  assumes "urlparse w u = Some parsed" "lower (netloc parsed) \<in> youtube_hosts"
    "path parsed = ''/shorts/'' @ ident @ rest" "CHR ''/'' \<notin> set ident"
    "rest = [] \<or> (\<exists>r. rest = CHR ''/'' # r)"
  shows "extract_youtube_video_id w u = Some ident"
proof -
  obtain more where "split_on CHR ''/'' (ident @ rest) = ident # more"
    using split_on_first [OF assms(4,5)] by blast
  then have parts: "split_on CHR ''/'' (path parsed) = [] # ''shorts'' # ident # more"
    by (simp add: assms(3))
  have "\<not> startswith ''/watch'' (path parsed)" "startswith ''/shorts/'' (path parsed)"
    by (simp_all add: assms(3) startswith_def)
  then show ?thesis
    using assms(1,2) parts by (simp add: extract_youtube_video_id_def Let_def)
qed

lemma short_link_id:
  assumes "urlparse w u = Some parsed" "lower (netloc parsed) = ''youtu.be''"
    "path parsed = ''/'' @ ident @ rest" "ident \<noteq> []" "CHR ''/'' \<notin> set ident"
    "rest = [] \<or> (\<exists>r. rest = CHR ''/'' # r)"
  shows "extract_youtube_video_id w u = Some ident"
proof -
  obtain more where parts: "split_on CHR ''/'' (ident @ rest) = ident # more"
    using split_on_first [OF assms(5,6)] by blast
  have "lstrip_char CHR ''/'' (path parsed) = ident @ rest"
    using assms(4,5) by (cases ident) (auto simp: assms(3) lstrip_char_def)
  moreover have "lower (netloc parsed) \<notin> youtube_hosts"
    using assms(2) host_sets_apart by blast
  ultimately show ?thesis
    using assms(1,2,4) parts by (simp add: extract_youtube_video_id_def Let_def)
qed

lemma other_host_no_id:
  assumes "urlparse w u = Some parsed" "lower (netloc parsed) \<notin> youtube_hosts"
    "lower (netloc parsed) \<noteq> ''youtu.be''"
  shows "extract_youtube_video_id w u = None"
  using assms by (simp add: extract_youtube_video_id_def Let_def)

lemma unparsed_no_id: "urlparse w u = None \<Longrightarrow> extract_youtube_video_id w u = None"
  by (simp add: extract_youtube_video_id_def)

lemmas link_defs =
  verify_link_def missing_def link_content_def link_call_def extract_youtube_video_id_def
  youtube_hosts_def lower_def lower_char_def startswith_def lstrip_char_def strip_def isspace_def

text \<open>
  C7, as amended. The function returns on every input, \<open>None\<close> when \<open>urlparse\<close>
  raises. With the network location lower-cased and compared whole: on \<open>youtube.com\<close>,
  \<open>www.youtube.com\<close> and \<open>m.youtube.com\<close> a path that starts with \<open>/watch\<close> gives
  the first value of the query parameter \<open>v\<close> when it is not empty, and a path
  \<open>/shorts/ID\<close> gives \<open>ID\<close>; on \<open>youtu.be\<close> the first path segment is the identifier
  whatever the path looks like; any other network location gives \<open>None\<close>, which the
  caller treats as a web page.
\<close>

theorem video_id_by_host_and_path:
  "(urlparse w u = None \<longrightarrow> extract_youtube_video_id w u = None) \<and>
   (urlparse w u = Some parsed \<longrightarrow>
      (lower (netloc parsed) \<in> youtube_hosts \<and> startswith ''/watch'' (path parsed) \<and>
       parse_qs w (query parsed) ''v'' = Some (v # vs) \<and> v \<noteq> [] \<longrightarrow>
         extract_youtube_video_id w u = Some v) \<and>
      (lower (netloc parsed) \<in> youtube_hosts \<and> path parsed = ''/shorts/'' @ ident @ rest \<and>
       CHR ''/'' \<notin> set ident \<and> (rest = [] \<or> (\<exists>r. rest = CHR ''/'' # r)) \<longrightarrow>
         extract_youtube_video_id w u = Some ident) \<and>
      (lower (netloc parsed) = ''youtu.be'' \<and> path parsed = ''/'' @ ident @ rest \<and>
       ident \<noteq> [] \<and> CHR ''/'' \<notin> set ident \<and> (rest = [] \<or> (\<exists>r. rest = CHR ''/'' # r)) \<longrightarrow>
         extract_youtube_video_id w u = Some ident) \<and>
      (lower (netloc parsed) \<notin> insert ''youtu.be'' youtube_hosts \<longrightarrow>
         extract_youtube_video_id w u = None))"
  using unparsed_no_id watch_id shorts_id short_link_id other_host_no_id
  by (intro conjI impI) (blast, blast, blast, blast, simp)

theorem video_id_by_host_and_path_witness:
  "extract_youtube_video_id sample_world ''https://www.youtube.com/watch?v=abc123'' = Some ''abc123'' \<and>
   extract_youtube_video_id sample_world ''https://WWW.YouTube.com/shorts/abc123'' = Some ''abc123'' \<and>
   extract_youtube_video_id sample_world ''https://youtu.be/abc123'' = Some ''abc123'' \<and>
   extract_youtube_video_id sample_world ''https://example.com/news'' = None \<and>
   extract_youtube_video_id sample_world ''http://[::1'' = None"
proof -
  have hosts: "lower ''www.youtube.com'' \<in> youtube_hosts" "lower ''WWW.YouTube.com'' \<in> youtube_hosts"
    "lower ''youtu.be'' = ''youtu.be''" "lower ''example.com'' \<notin> insert ''youtu.be'' youtube_hosts"
    by (simp_all add: lower_def lower_char_def youtube_hosts_def)
  have watch: "startswith ''/watch'' ''/watch''"
    by (simp add: startswith_def)
  show ?thesis
    using
      video_id_by_host_and_path [of sample_world "''https://www.youtube.com/watch?v=abc123''"
        "\<lparr>netloc = ''www.youtube.com'', path = ''/watch'', query = ''v=abc123''\<rparr>"
        "''abc123''" "[]" "[]" "[]"]
      video_id_by_host_and_path [of sample_world "''https://WWW.YouTube.com/shorts/abc123''"
        "\<lparr>netloc = ''WWW.YouTube.com'', path = ''/shorts/abc123'', query = []\<rparr>"
        "[]" "[]" "''abc123''" "[]"]
      video_id_by_host_and_path [of sample_world "''https://youtu.be/abc123''"
        "\<lparr>netloc = ''youtu.be'', path = ''/abc123'', query = []\<rparr>"
        "[]" "[]" "''abc123''" "[]"]
      video_id_by_host_and_path [of sample_world "''https://example.com/news''"
        "\<lparr>netloc = ''example.com'', path = ''/news'', query = []\<rparr>"
        "[]" "[]" "[]" "[]"]
      video_id_by_host_and_path [of sample_world "''http://[::1''"
        "\<lparr>netloc = [], path = [], query = []\<rparr>" "[]" "[]" "[]" "[]"]
      hosts watch
    by (simp add: sample_world_def sample_urlparse_def sample_parse_qs_def)
qed

text \<open>
  C7 as stated fails: on the host \<open>youtu.be\<close> a URL of the form \<open>/watch?v=ID\<close> gives
  the identifier \<open>watch\<close>, not \<open>ID\<close>; and with a port after the host
  \<open>www.youtube.com\<close> no identifier is found at all.
\<close>

theorem short_link_watch_counterexample:
  "urlparse sample_world ''https://youtu.be/watch?v=abc123'' =
     Some \<lparr>netloc = ''youtu.be'', path = ''/watch'', query = ''v=abc123''\<rparr> \<and>
   extract_youtube_video_id sample_world ''https://youtu.be/watch?v=abc123'' = Some ''watch'' \<and>
   urlparse sample_world ''https://www.youtube.com:443/watch?v=abc123'' =
     Some \<lparr>netloc = ''www.youtube.com:443'', path = ''/watch'', query = ''v=abc123''\<rparr> \<and>
   extract_youtube_video_id sample_world ''https://www.youtube.com:443/watch?v=abc123'' = None"
  by (simp add: sample_world_def sample_urlparse_def sample_parse_qs_def link_defs)

text \<open>
  C1, as amended. For a URL on one of the YouTube hosts from which no identifier, or an
  empty one, is extracted, the link endpoint asks the extraction provider for the scraped
  text of the page at that URL, and goes on with that text when it is not blank.
\<close>

theorem unresolved_video_id_is_scraped:
  assumes "urlparse w url = Some parsed"
    and "lower (netloc parsed) \<in> insert ''youtu.be'' youtube_hosts"
    and "extract_youtube_video_id w url = None \<or> extract_youtube_video_id w url = Some []"
  shows "link_call w url = Scrape url \<and>
         (\<forall>text. supadata w (Scrape url) = Content (Some text) \<and> strip text \<noteq> [] \<longrightarrow>
            link_content w url = Inr text)"
proof -
  have call: "link_call w url = Scrape url"
    using assms(3) by (auto simp: link_call_def)
  then show ?thesis
    by (auto simp: link_content_def)
qed

theorem unresolved_video_id_is_scraped_witness:
  "lower ''www.youtube.com'' \<in> insert ''youtu.be'' youtube_hosts \<and>
   extract_youtube_video_id sample_world ''https://www.youtube.com/watch'' = None \<and>
   link_call sample_world ''https://www.youtube.com/watch'' = Scrape ''https://www.youtube.com/watch'' \<and>
   link_content sample_world ''https://www.youtube.com/watch'' =
     Inr ''page at https://www.youtube.com/watch''"
proof -
  let ?u = "''https://www.youtube.com/watch''"
  have parsed: "urlparse sample_world ?u =
      Some \<lparr>netloc = ''www.youtube.com'', path = ''/watch'', query = []\<rparr>"
    by (simp add: sample_world_def sample_urlparse_def)
  have host: "lower (netloc \<lparr>netloc = ''www.youtube.com'', path = ''/watch'', query = []\<rparr>)
      \<in> insert ''youtu.be'' youtube_hosts"
    by (simp add: lower_def lower_char_def youtube_hosts_def)
  have no_id: "extract_youtube_video_id sample_world ?u = None"
    by (simp add: sample_world_def sample_urlparse_def sample_parse_qs_def link_defs)
  have scraped: "supadata sample_world (Scrape ?u) = Content (Some ''page at https://www.youtube.com/watch'')"
    "strip ''page at https://www.youtube.com/watch'' \<noteq> []"
    by (simp_all add: sample_world_def sample_supadata_def strip_def isspace_def)
  show ?thesis
    using unresolved_video_id_is_scraped [OF parsed host disjI1 [OF no_id]] host no_id scraped
    by simp
qed

text \<open>
  C1 as stated fails: for \<open>https://www.youtube.com/watch\<close>, a YouTube host with no
  \<open>v\<close> parameter, the endpoint scrapes the page and returns a verdict on its text.
\<close>

theorem youtube_link_without_id_counterexample:
  "urlparse sample_world ''https://www.youtube.com/watch'' =
     Some \<lparr>netloc = ''www.youtube.com'', path = ''/watch'', query = []\<rparr> \<and>
   lower ''www.youtube.com'' \<in> youtube_hosts \<and>
   extract_youtube_video_id sample_world ''https://www.youtube.com/watch'' = None \<and>
   link_call sample_world ''https://www.youtube.com/watch'' = Scrape ''https://www.youtube.com/watch'' \<and>
   verify_link sample_world ''https://www.youtube.com/watch'' = Inr (JObj (verdict_fields ''nie''))"
  by (simp add: sample_defs link_defs validator_defs)

section \<open>The temporary file of the image endpoint\<close>

lemma cleanup_removes: "remove_raises d p = None \<Longrightarrow> cleanup d p fs = fs - {p}"
  by (auto simp: cleanup_def os_remove_def)

lemma cleanup_leaves: "remove_raises d p = Some e \<Longrightarrow> cleanup d p fs = fs"
  by (simp add: cleanup_def os_remove_def)

lemma detection_timeout:
  assumes "upload d key p = Inr upload_resp"
    and "get upload_resp ''request_id'' JNull = Inr request_id" "truthy request_id"
    and "90 < fst (get_result d request_id)"
  shows "image_handlers (detection d key p) = Inl (HTTPException 504 DetectionTimeout)"
  using assms
  by (simp add: detection_def and_then_def from_library_def image_handlers_def wait_for_def)

text \<open>
  C9, as amended. Once the upload has been saved to its temporary file, the endpoint
  tries to remove that file on every way out, whatever the detection ends with: when
  \<open>os.remove\<close> does not raise, the file is gone and the other files are as before; when
  it raises, the exception is dropped and the file stays. The response is the same in
  both cases. When the wait for the result passes 90 seconds, the response is 504.
\<close>

theorem temporary_file_removal:
  assumes "image_type (content_type file)"
    and "rd_getenv d ''REALITY_DEFENDER_API_KEY'' = Some key" "key \<noteq> []"
    and "tmp_file d = Saved tmp_path"
  shows "(remove_raises d tmp_path = None \<longrightarrow>
            tmp_path \<notin> fst (verify_image_with_reality_defender d file fs) \<and>
            fst (verify_image_with_reality_defender d file fs) = fs - {tmp_path}) \<and>
         (\<forall>e. remove_raises d tmp_path = Some e \<longrightarrow>
            fst (verify_image_with_reality_defender d file fs) = insert tmp_path fs) \<and>
         snd (verify_image_with_reality_defender d file fs) =
           image_handlers (detection d key tmp_path) \<and>
         (\<forall>upload_resp request_id.
            upload d key tmp_path = Inr upload_resp \<and>
            get upload_resp ''request_id'' JNull = Inr request_id \<and> truthy request_id \<and>
            90 < fst (get_result d request_id) \<longrightarrow>
              snd (verify_image_with_reality_defender d file fs) =
                Inl (HTTPException 504 DetectionTimeout))"
proof -
  have run: "verify_image_with_reality_defender d file fs =
      (cleanup d tmp_path (insert tmp_path fs), image_handlers (detection d key tmp_path))"
    using assms by (simp add: verify_image_with_reality_defender_def)
  show ?thesis
    unfolding run using detection_timeout
    by (auto simp: cleanup_removes cleanup_leaves)
qed

theorem temporary_file_removal_witness:
  "image_type (content_type sample_file) \<and>
   remove_raises slow_detector ''/tmp/tmpab12cd.png'' = None \<and>
   verify_image_with_reality_defender slow_detector sample_file {''/tmp/other''} =
     ({''/tmp/other''}, Inl (HTTPException 504 DetectionTimeout))"
proof -
  have ok: "image_type (content_type sample_file)"
    by (simp add: sample_file_def image_type_def startswith_def)
  have key: "rd_getenv slow_detector ''REALITY_DEFENDER_API_KEY'' = Some ''secret''" "''secret'' \<noteq> []"
    and saved: "tmp_file slow_detector = Saved ''/tmp/tmpab12cd.png''"
    and sent: "upload slow_detector ''secret'' ''/tmp/tmpab12cd.png'' = Inr (JObj [(''request_id'', JStr ''r-1'')])"
    and late: "90 < fst (get_result slow_detector (JStr ''r-1''))"
    and removable: "remove_raises slow_detector ''/tmp/tmpab12cd.png'' = None"
    by (simp_all add: slow_detector_def)
  have rid: "get (JObj [(''request_id'', JStr ''r-1'')]) ''request_id'' JNull = Inr (JStr ''r-1'')"
    "truthy (JStr ''r-1'')"
    by simp_all
  have "fst (verify_image_with_reality_defender slow_detector sample_file {''/tmp/other''}) =
      {''/tmp/other''} - {''/tmp/tmpab12cd.png''}"
    and "snd (verify_image_with_reality_defender slow_detector sample_file {''/tmp/other''}) =
      Inl (HTTPException 504 DetectionTimeout)"
    using temporary_file_removal [OF ok key saved, of "{''/tmp/other''}"] sent late rid removable
    by blast+
  then show ?thesis
    using ok removable by (simp add: prod_eq_iff)
qed

text \<open>
  C9 as stated fails: when \<open>os.remove\<close> raises, here \<open>PermissionError\<close>, lines 114 and
  115 drop the exception and the temporary file is still there after the request.
\<close>

theorem temporary_file_stays_counterexample:
  "tmp_file stuck_detector = Saved ''/tmp/tmpab12cd.png'' \<and>
   verify_image_with_reality_defender stuck_detector sample_file {} =
     ({''/tmp/tmpab12cd.png''}, Inl (HTTPException 504 DetectionTimeout))"
  by (simp add: stuck_detector_def slow_detector_def sample_file_def image_type_def startswith_def
        verify_image_with_reality_defender_def cleanup_def os_remove_def detection_def
        and_then_def from_library_def image_handlers_def wait_for_def)

end
